theory Spec2Isabelle
  imports Complex_Main "HOL-Library.AList"
begin

section \<open>The module \<^verbatim>\<open>geosemops.operators\<close>\<close>

text \<open>
  The repository consists of one source file, the package initialiser
  \<^verbatim>\<open>src/geosemops/operators/__init__.py\<close>:
  \<^verbatim>\<open>
  """Semantic operators for geospatial data processing.

  Core operators (see docs/DESIGN.md for details):
  - sem_map: Per-row semantic enrichment
  - sem_filter: Semantic row filtering
  - sem_match: Pairwise entity comparison
  - sem_resolve: Full entity resolution pipeline
  """

  # TODO: Implement in Phase 1-3
  \<close>
  What this file does when Python imports it, and what a caller then observes when
  reaching for one of the four operators its docstring lists, is modelled below: the
  items of a module body, their execution into a module namespace, attribute lookup,
  \<^verbatim>\<open>from ... import ...\<close> and the call of an attribute.
\<close>

subsection \<open>Python values and exceptions\<close>

text \<open>
  Plain data as a caller can write it in literals. A number with a decimal point is kept
  by its exact decimal value; no arithmetic is ever done on it here.
\<close>

datatype pyval =
    PyNone
  | PyBool bool
  | PyInt int
  | PyNum rat
  | PyStr string
  | PyList "pyval list"
  | PyDict "(pyval \<times> pyval) list"

text \<open>
  An object bound in a module namespace: plain data, a function (with its meaning
  \<open>'f\<close>), a submodule (by its dotted name), or one of the import system's own objects
  (\<^verbatim>\<open>__loader__\<close>, \<^verbatim>\<open>__spec__\<close>, \<^verbatim>\<open>__builtins__\<close>), which are not callable as operators
  and whose content plays no role.
\<close>

datatype 'f pyobj =
    PyValue pyval
  | PyFunction 'f
  | PySubmodule string
  | PyInternal string

text \<open>
  The exceptions that looking up and calling a module attribute can raise.
  \<open>AttributeError m n\<close>: module \<open>m\<close> has no attribute \<open>n\<close>.
  \<open>ImportError m n\<close>: cannot import name \<open>n\<close> from \<open>m\<close>.
  \<open>TypeError n\<close>: the object bound to \<open>n\<close> is not callable.
  \<open>Raised c\<close>: an exception of any other class \<open>c\<close>, raised by code that was called.
\<close>

datatype pyexc =
    AttributeError string string
  | ImportError string string
  | TypeError string
  | Raised string

subsection \<open>Module bodies and their execution\<close>

text \<open>
  The items a module body is made of, as far as they bind names: a comment (dropped by
  the tokenizer), an expression statement that is a string literal, an assignment of a
  literal to a name, and a function definition.
\<close>

datatype 'f item =
    Comment string
  | StrExpr string
  | Assign string pyval
  | FunctionDef string 'f

type_synonym 'f namespace = "(string \<times> 'f pyobj) list"

record 'f module =
  mod_name :: string
  mod_files :: "string list"
  mod_dict :: "'f namespace"

fun is_comment :: "'f item \<Rightarrow> bool" where
  "is_comment (Comment c) = True"
| "is_comment (StrExpr s) = False"
| "is_comment (Assign n v) = False"
| "is_comment (FunctionDef n f) = False"

fun is_function_def :: "'f item \<Rightarrow> bool" where
  "is_function_def (Comment c) = False"
| "is_function_def (StrExpr s) = False"
| "is_function_def (Assign n v) = False"
| "is_function_def (FunctionDef n f) = True"

fun is_function :: "'f pyobj \<Rightarrow> bool" where
  "is_function (PyValue v) = False"
| "is_function (PyFunction f) = True"
| "is_function (PySubmodule m) = False"
| "is_function (PyInternal s) = False"

text \<open>
  The docstring of a module is its first statement when that is a string literal, and
  \<^verbatim>\<open>None\<close> otherwise.
\<close>

definition docstring_of :: "'f item list \<Rightarrow> pyval" where
  "docstring_of body =
     (case filter (\<lambda>i. \<not> is_comment i) body of
        StrExpr s # rest \<Rightarrow> PyStr s
      | _ \<Rightarrow> PyNone)"

text \<open>
  The namespace the import system hands to the body of a package initialiser before
  running it.
\<close>

definition initial_namespace :: "string \<Rightarrow> string \<Rightarrow> pyval \<Rightarrow> 'f namespace" where
  "initial_namespace name dir doc =
     [(''__name__'', PyValue (PyStr name)),
      (''__doc__'', PyValue doc),
      (''__package__'', PyValue (PyStr name)),
      (''__loader__'', PyInternal ''loader''),
      (''__spec__'', PyInternal ''spec''),
      (''__path__'', PyValue (PyList [PyStr dir])),
      (''__file__'', PyValue (PyStr (dir @ ''/__init__.py''))),
      (''__cached__'', PyValue (PyStr (dir @ ''/__pycache__/__init__.pyc''))),
      (''__builtins__'', PyInternal ''builtins'')]"

text \<open>
  Running one item. A comment does nothing; an expression statement evaluates its
  literal and drops the value; an assignment and a \<^verbatim>\<open>def\<close> bind their name (a dict keeps
  the position of a key that is bound again).
\<close>

fun exec_item :: "'f item \<Rightarrow> 'f namespace \<Rightarrow> 'f namespace" where
  "exec_item (Comment c) ns = ns"
| "exec_item (StrExpr s) ns = ns"
| "exec_item (Assign n v) ns = AList.update n (PyValue v) ns"
| "exec_item (FunctionDef n f) ns = AList.update n (PyFunction f) ns"

definition exec_module :: "string \<Rightarrow> string \<Rightarrow> string list \<Rightarrow> 'f item list \<Rightarrow> 'f module" where
  "exec_module name dir files body =
     \<lparr>mod_name = name, mod_files = files,
      mod_dict = fold exec_item body (initial_namespace name dir (docstring_of body))\<rparr>"

subsection \<open>Reaching for an attribute of a module\<close>

text \<open>\<^verbatim>\<open>m.n\<close>: the value bound to \<open>n\<close> in the module's namespace, or \<^verbatim>\<open>AttributeError\<close>.\<close>

definition getattr_module :: "'f module \<Rightarrow> string \<Rightarrow> pyexc + 'f pyobj" where
  "getattr_module m n =
     (case map_of (mod_dict m) n of
        Some v \<Rightarrow> Inr v
      | None \<Rightarrow> Inl (AttributeError (mod_name m) n))"

text \<open>
  \<^verbatim>\<open>from m import n\<close>: the attribute when the module has it; otherwise the submodule
  \<open>m.n\<close> when the package directory holds a file \<^verbatim>\<open>n.py\<close> or a directory \<^verbatim>\<open>n\<close>;
  otherwise \<^verbatim>\<open>ImportError\<close>.
\<close>

definition has_submodule :: "'f module \<Rightarrow> string \<Rightarrow> bool" where
  "has_submodule m n = (n @ ''.py'' \<in> set (mod_files m) \<or> n \<in> set (mod_files m))"

definition import_from :: "'f module \<Rightarrow> string \<Rightarrow> pyexc + 'f pyobj" where
  "import_from m n =
     (case getattr_module m n of
        Inr v \<Rightarrow> Inr v
      | Inl e \<Rightarrow>
          if has_submodule m n then Inr (PySubmodule (mod_name m @ ''.'' @ n))
          else Inl (ImportError (mod_name m) n))"

text \<open>
  \<^verbatim>\<open>m.n(args)\<close>: Python evaluates the callee \<^verbatim>\<open>m.n\<close> first, so a missing attribute raises
  before any argument is looked at; a function is applied to the arguments; anything
  else is not callable.
\<close>

definition call_attr :: "('a \<Rightarrow> pyexc + 'r) module \<Rightarrow> string \<Rightarrow> 'a \<Rightarrow> pyexc + 'r" where
  "call_attr m n args =
     (case getattr_module m n of
        Inl e \<Rightarrow> Inl e
      | Inr (PyFunction f) \<Rightarrow> f args
      | Inr (PyValue v) \<Rightarrow> Inl (TypeError n)
      | Inr (PySubmodule s) \<Rightarrow> Inl (TypeError n)
      | Inr (PyInternal s) \<Rightarrow> Inl (TypeError n))"

text \<open>
  \<^verbatim>\<open>from m import n\<close> followed by \<^verbatim>\<open>n(args)\<close>: the import comes first, and its failure is
  the failure of the whole attempt.
\<close>

definition import_and_call :: "('a \<Rightarrow> pyexc + 'r) module \<Rightarrow> string \<Rightarrow> 'a \<Rightarrow> pyexc + 'r" where
  "import_and_call m n args =
     (case import_from m n of
        Inl e \<Rightarrow> Inl e
      | Inr (PyFunction f) \<Rightarrow> f args
      | Inr (PyValue v) \<Rightarrow> Inl (TypeError n)
      | Inr (PySubmodule s) \<Rightarrow> Inl (TypeError n)
      | Inr (PyInternal s) \<Rightarrow> Inl (TypeError n))"

subsection \<open>The source file\<close>

definition newline :: char where
  "newline = CHR 0x0A"

definition unlines :: "string list \<Rightarrow> string" where
  "unlines ls = concat (map (\<lambda>l. l @ [newline]) ls)"

definition operators_docstring :: string where
  "operators_docstring = unlines
     [''Semantic operators for geospatial data processing.'',
      '''',
      ''Core operators (see docs/DESIGN.md for details):'',
      ''- sem_map: Per-row semantic enrichment'',
      ''- sem_filter: Semantic row filtering'',
      ''- sem_match: Pairwise entity comparison'',
      ''- sem_resolve: Full entity resolution pipeline'']"

text \<open>The body of \<^verbatim>\<open>__init__.py\<close>: the docstring, then the comment.\<close>

definition operators_body :: "'f item list" where
  "operators_body =
     [StrExpr operators_docstring,
      Comment ''# TODO: Implement in Phase 1-3'']"

text \<open>The package directory \<^verbatim>\<open>src/geosemops/operators\<close> holds this one file.\<close>

definition operators_files :: "string list" where
  "operators_files = [''__init__.py'']"

definition operators_module :: "'f module" where
  "operators_module =
     exec_module ''geosemops.operators'' ''src/geosemops/operators'' operators_files operators_body"

text \<open>The four operators the docstring lists.\<close>

definition documented_operators :: "string list" where
  "documented_operators = [''sem_map'', ''sem_filter'', ''sem_match'', ''sem_resolve'']"

subsection \<open>Calls of \<^verbatim>\<open>sem_resolve\<close> as a caller writes them\<close>

text \<open>
  The documented entry point is \<^verbatim>\<open>sem_resolve(rows, match_capability, config)\<close>. The
  source defines no types for its arguments, so they are plain Python data: the rows
  are a list, the configuration is a dict of options, and the match capability is a
  function of two rows that returns a verdict or raises.
\<close>

type_synonym capability = "pyval \<Rightarrow> pyval \<Rightarrow> pyexc + pyval"

type_synonym resolve_args = "pyval \<times> capability \<times> pyval"

definition config_options :: "(pyval \<times> pyval) list" where
  "config_options =
     [(PyStr ''blocking_radius'', PyNum 100),
      (PyStr ''blocking_key_fields'', PyList [PyStr ''postal_code'']),
      (PyStr ''batch_size'', PyInt 16),
      (PyStr ''match_threshold'', PyNum (4 / 5)),
      (PyStr ''clustering_strategy'', PyStr ''connected-components''),
      (PyStr ''merge_policy'', PyStr ''most-complete''),
      (PyStr ''max_retries'', PyInt 3),
      (PyStr ''fail_fast'', PyBool False)]"

text \<open>A configuration with threshold 0.8 and the connected-components strategy.\<close>

definition valid_config :: pyval where
  "valid_config = PyDict config_options"

text \<open>A capability that answers every pair with the score 1.0.\<close>

definition always_match :: capability where
  "always_match a b = Inr (PyNum 1)"

section \<open>What the module provides\<close>

lemma operators_namespace:
  "mod_dict (operators_module :: 'f module) =
     initial_namespace ''geosemops.operators'' ''src/geosemops/operators''
       (PyStr operators_docstring)"
  by (simp add: operators_module_def exec_module_def operators_body_def docstring_of_def)

lemma operators_name: "mod_name (operators_module :: 'f module) = ''geosemops.operators''"
  by (simp add: operators_module_def exec_module_def)

lemma operators_doc:
  "map_of (mod_dict (operators_module :: 'f module)) ''__doc__''
     = Some (PyValue (PyStr operators_docstring))"
  by (simp add: operators_namespace initial_namespace_def)

lemma lookup_sem_map:
  "map_of (mod_dict (operators_module :: 'f module)) ''sem_map'' = None"
  by (simp add: operators_namespace initial_namespace_def)

lemma lookup_sem_filter:
  "map_of (mod_dict (operators_module :: 'f module)) ''sem_filter'' = None"
  by (simp add: operators_namespace initial_namespace_def)

lemma lookup_sem_match:
  "map_of (mod_dict (operators_module :: 'f module)) ''sem_match'' = None"
  by (simp add: operators_namespace initial_namespace_def)

lemma lookup_sem_resolve:
  "map_of (mod_dict (operators_module :: 'f module)) ''sem_resolve'' = None"
  by (simp add: operators_namespace initial_namespace_def)

lemma documented_operators_cases:
  assumes "n \<in> set documented_operators"
  obtains "n = ''sem_map''" | "n = ''sem_filter''" | "n = ''sem_match''" | "n = ''sem_resolve''"
  using assms unfolding documented_operators_def by auto

lemma sem_resolve_documented: "''sem_resolve'' \<in> set documented_operators"
  by (simp add: documented_operators_def)

lemma operators_lookup_missing:
  assumes "n \<in> set documented_operators"
  shows "map_of (mod_dict (operators_module :: 'f module)) n = None"
  using assms
  by (rule documented_operators_cases)
    (simp_all only: lookup_sem_map lookup_sem_filter lookup_sem_match lookup_sem_resolve)

lemma operators_no_submodule:
  assumes "n \<in> set documented_operators"
  shows "\<not> has_submodule (operators_module :: 'f module) n"
  using assms
  by (auto simp add: documented_operators_def has_submodule_def operators_module_def
      exec_module_def operators_files_def)

lemma operators_getattr_missing:
  assumes "n \<in> set documented_operators"
  shows "getattr_module (operators_module :: 'f module) n
           = Inl (AttributeError ''geosemops.operators'' n)"
  by (simp add: getattr_module_def operators_lookup_missing [OF assms] operators_name)

lemma operators_import_missing:
  assumes "n \<in> set documented_operators"
  shows "import_from (operators_module :: 'f module) n
           = Inl (ImportError ''geosemops.operators'' n)"
  by (simp add: import_from_def operators_getattr_missing [OF assms]
      operators_no_submodule [OF assms] operators_name)

lemma operators_call_missing:
  assumes "n \<in> set documented_operators"
  shows "call_attr operators_module n args = Inl (AttributeError ''geosemops.operators'' n)"
  by (simp add: call_attr_def operators_getattr_missing [OF assms])

lemma operators_import_and_call_missing:
  assumes "n \<in> set documented_operators"
  shows "import_and_call operators_module n args
           = Inl (ImportError ''geosemops.operators'' n)"
  by (simp add: import_and_call_def operators_import_missing [OF assms])

lemma operators_no_function_def:
  "filter is_function_def (operators_body :: 'f item list) = []"
  by (simp add: operators_body_def)

lemma operators_no_function:
  "filter (\<lambda>(n, v). is_function v) (mod_dict (operators_module :: 'f module)) = []"
  by (simp add: operators_namespace initial_namespace_def)

text \<open>
  Claim C10. The module defines no function: its body holds no \<^verbatim>\<open>def\<close>, what is left of
  it without the comment is the one string literal that becomes \<^verbatim>\<open>__doc__\<close>, and no
  function is bound in the namespace. So each of \<^verbatim>\<open>sem_map\<close>, \<^verbatim>\<open>sem_filter\<close>,
  \<^verbatim>\<open>sem_match\<close> and \<^verbatim>\<open>sem_resolve\<close> is missing from the module's attributes, and every
  way of reaching for one fails: the attribute access and the call through the module
  with \<^verbatim>\<open>AttributeError\<close>, the \<^verbatim>\<open>from ... import\<close> (and a call after it) with
  \<^verbatim>\<open>ImportError\<close>, whatever the arguments.
\<close>

theorem operators_module_defines_no_operator:
  "filter is_function_def (operators_body :: ('a \<Rightarrow> pyexc + 'r) item list) = []
   \<and> filter (\<lambda>i. \<not> is_comment i) (operators_body :: ('a \<Rightarrow> pyexc + 'r) item list)
       = [StrExpr operators_docstring]
   \<and> map_of (mod_dict (operators_module :: ('a \<Rightarrow> pyexc + 'r) module)) ''__doc__''
       = Some (PyValue (PyStr operators_docstring))
   \<and> filter (\<lambda>(n, v). is_function v) (mod_dict (operators_module :: ('a \<Rightarrow> pyexc + 'r) module)) = []
   \<and> (\<forall>n \<in> set documented_operators.
         getattr_module (operators_module :: ('a \<Rightarrow> pyexc + 'r) module) n
           = Inl (AttributeError ''geosemops.operators'' n)
       \<and> import_from (operators_module :: ('a \<Rightarrow> pyexc + 'r) module) n
           = Inl (ImportError ''geosemops.operators'' n)
       \<and> (\<forall>args :: 'a. call_attr operators_module n args
           = (Inl (AttributeError ''geosemops.operators'' n) :: pyexc + 'r))
       \<and> (\<forall>args :: 'a. import_and_call operators_module n args
           = (Inl (ImportError ''geosemops.operators'' n) :: pyexc + 'r)))"
proof (intro conjI ballI allI)
  show "filter is_function_def (operators_body :: ('a \<Rightarrow> pyexc + 'r) item list) = []"
    by (rule operators_no_function_def)
  show "filter (\<lambda>i. \<not> is_comment i) (operators_body :: ('a \<Rightarrow> pyexc + 'r) item list)
          = [StrExpr operators_docstring]"
    by (simp add: operators_body_def)
  show "map_of (mod_dict (operators_module :: ('a \<Rightarrow> pyexc + 'r) module)) ''__doc__''
          = Some (PyValue (PyStr operators_docstring))"
    by (rule operators_doc)
  show "filter (\<lambda>(n, v). is_function v) (mod_dict (operators_module :: ('a \<Rightarrow> pyexc + 'r) module)) = []"
    by (rule operators_no_function)
next
  fix n assume n: "n \<in> set documented_operators"
  show "getattr_module (operators_module :: ('a \<Rightarrow> pyexc + 'r) module) n
          = Inl (AttributeError ''geosemops.operators'' n)"
    by (rule operators_getattr_missing [OF n])
  show "import_from (operators_module :: ('a \<Rightarrow> pyexc + 'r) module) n
          = Inl (ImportError ''geosemops.operators'' n)"
    by (rule operators_import_missing [OF n])
  show "call_attr operators_module n args
          = (Inl (AttributeError ''geosemops.operators'' n) :: pyexc + 'r)" for args :: 'a
    by (rule operators_call_missing [OF n])
  show "import_and_call operators_module n args
          = (Inl (ImportError ''geosemops.operators'' n) :: pyexc + 'r)" for args :: 'a
    by (rule operators_import_and_call_missing [OF n])
qed

theorem operators_module_defines_no_operator_witness:
  "''sem_resolve'' \<in> set documented_operators
   \<and> getattr_module (operators_module :: (resolve_args \<Rightarrow> pyexc + pyval) module) ''sem_resolve''
       = Inl (AttributeError ''geosemops.operators'' ''sem_resolve'')
   \<and> import_from (operators_module :: (resolve_args \<Rightarrow> pyexc + pyval) module) ''sem_resolve''
       = Inl (ImportError ''geosemops.operators'' ''sem_resolve'')
   \<and> call_attr operators_module ''sem_resolve'' (PyList [], always_match, valid_config)
       = (Inl (AttributeError ''geosemops.operators'' ''sem_resolve'') :: pyexc + pyval)
   \<and> import_and_call operators_module ''sem_resolve'' (PyList [], always_match, valid_config)
       = (Inl (ImportError ''geosemops.operators'' ''sem_resolve'') :: pyexc + pyval)"
  using operators_module_defines_no_operator [where ?'a = resolve_args and ?'r = pyval]
    sem_resolve_documented
  by blast

end
